theory Spec2Isabelle
  imports Main
begin

section \<open>Session store and manual navigation of the login shell\<close>

text \<open>
  The development embeds \<^verbatim>\<open>src/app/app.component.ts\<close>: the class \<^verbatim>\<open>AuthService\<close>
  (token and role signals backed by the browser's \<^verbatim>\<open>localStorage\<close>) and the component
  \<^verbatim>\<open>App\<close> (manual two-page routing and the login submission handlers).

  Signals are mutable cells, so every method becomes a function from the state before the
  call to the state after it. A TypeScript \<^verbatim>\<open>string | null\<close> is a \<open>string option\<close>
  (\<open>None\<close> is \<^verbatim>\<open>null\<close>). Strings are lists of characters; the two accented letters
  of the login error message are written by their code (both lie in Latin-1, where the
  code of a character is its UTF-16 code unit).
\<close>

subsection \<open>Browser storage\<close>

type_synonym storage = "string \<rightharpoonup> string"

definition getItem :: "storage \<Rightarrow> string \<Rightarrow> string option" where
  "getItem st k = st k"

definition setItem :: "string \<Rightarrow> string \<Rightarrow> storage \<Rightarrow> storage" where
  "setItem k v st = st(k \<mapsto> v)"

definition removeItem :: "string \<Rightarrow> storage \<Rightarrow> storage" where
  "removeItem k st = st(k := None)"

subsection \<open>Types of the component\<close>

record AuthResponse =
  response_token :: string
  response_role :: string

datatype Page = Login | Dashboard

fun page_name :: "Page \<Rightarrow> string" where
  "page_name Login = ''login''"
| "page_name Dashboard = ''dashboard''"

datatype console_entry = ConsoleLog string | ConsoleWarn string

fun entry_text :: "console_entry \<Rightarrow> string" where
  "entry_text (ConsoleLog m) = m"
| "entry_text (ConsoleWarn m) = m"

subsection \<open>AuthService\<close>

record AuthService =
  localStorage :: storage
  token :: "string option"
  role :: "string option"

definition apiUrl :: string where
  "apiUrl = ''http://localhost:8080''"

definition tokenKey :: string where
  "tokenKey = ''jwt_token''"

definition roleKey :: string where
  "roleKey = ''user_role''"

text \<open>
  The field initialisers of the class: both signals start with what
  \<^verbatim>\<open>localStorage.getItem\<close> returns for their key.
\<close>

definition AuthService_init :: "storage \<Rightarrow> AuthService" where
  "AuthService_init st =
     \<lparr>localStorage = st, token = getItem st tokenKey, role = getItem st roleKey\<rparr>"

text \<open>
  JavaScript's \<^verbatim>\<open>!!v\<close> on a \<^verbatim>\<open>string | null\<close>: \<^verbatim>\<open>null\<close> and the empty string
  are falsy, every other string is truthy.
\<close>

fun truthy :: "string option \<Rightarrow> bool" where
  "truthy None = False"
| "truthy (Some v) = (v \<noteq> [])"

definition isAuthenticated :: "AuthService \<Rightarrow> bool" where
  "isAuthenticated a = truthy (token a)"

record login_request =
  url :: string
  username :: string
  password :: string

definition login :: "string \<Rightarrow> string \<Rightarrow> login_request" where
  "login u p = \<lparr>url = apiUrl @ ''/auth/login'', username = u, password = p\<rparr>"

definition setSession :: "string \<Rightarrow> string \<Rightarrow> AuthService \<Rightarrow> AuthService" where
  "setSession t r a =
     a\<lparr>localStorage := setItem roleKey r (setItem tokenKey t (localStorage a)),
       token := Some t,
       role := Some r\<rparr>"

definition logout :: "AuthService \<Rightarrow> AuthService" where
  "logout a =
     a\<lparr>localStorage := removeItem roleKey (removeItem tokenKey (localStorage a)),
       token := None,
       role := None\<rparr>"

subsection \<open>App\<close>

record loginData_t =
  form_username :: string
  form_password :: string

record App =
  authService :: AuthService
  loginData :: loginData_t
  currentPage :: Page
  errorMsg :: "string option"
  isSubmitting :: bool
  console :: "console_entry list"

text \<open>
  Construction of the component: the injected service is built first (its constructor
  logs the backend address), then the component's own fields take their initial values.
\<close>

definition App_init :: "storage \<Rightarrow> App" where
  "App_init st =
     \<lparr>authService = AuthService_init st,
      loginData = \<lparr>form_username = ''admin'', form_password = ''admin123''\<rparr>,
      currentPage = Login,
      errorMsg = None,
      isSubmitting = False,
      console = [ConsoleLog (''AuthService inicializado. Backend en: '' @ apiUrl)]\<rparr>"

definition navigate :: "Page \<Rightarrow> App \<Rightarrow> App" where
  "navigate page s =
     (let s1 = s\<lparr>errorMsg := None\<rparr> in
      if page = Dashboard \<and> \<not> isAuthenticated (authService s1)
      then s1\<lparr>currentPage := Login,
              console := console s1 @ [ConsoleWarn ''Acceso denegado. Redirigiendo a login.'']\<rparr>
      else s1\<lparr>currentPage := page,
              console := console s1 @ [ConsoleLog (''Navegando a: '' @ page_name page)]\<rparr>)"

definition ngOnInit :: "App \<Rightarrow> App" where
  "ngOnInit s = navigate (if isAuthenticated (authService s) then Dashboard else Login) s"

text \<open>What the browser does at startup: construct the component, then run its init hook.\<close>

definition startup :: "storage \<Rightarrow> App" where
  "startup st = ngOnInit (App_init st)"

text \<open>
  The outcome of the one HTTP request of a submission. The error object is never
  inspected by the handler; it is kept as the HTTP status (0 for a transport failure).
\<close>

datatype login_result = Success AuthResponse | Failure nat

definition loginErrorMessage :: string where
  "loginErrorMessage =
     ''Usuario o contrase'' @ [CHR 0xF1] @ ''a incorrectos. Por favor, int''
       @ [CHR 0xE9] @ ''ntalo de nuevo.''"

definition onLogin_next :: "AuthResponse \<Rightarrow> App \<Rightarrow> App" where
  "onLogin_next response s =
     (let s1 = s\<lparr>authService :=
                   setSession (response_token response) (response_role response) (authService s)\<rparr>;
          s2 = navigate Dashboard s1
      in s2\<lparr>isSubmitting := False\<rparr>)"

definition onLogin_error :: "nat \<Rightarrow> App \<Rightarrow> App" where
  "onLogin_error err s =
     (let s1 = s\<lparr>errorMsg := Some loginErrorMessage\<rparr>;
          s2 = s1\<lparr>isSubmitting := False\<rparr>
      in s2\<lparr>authService := logout (authService s2)\<rparr>)"

text \<open>
  A whole submission: the flags are set, the request built from the form is handed to
  the endpoint (a parameter: the remote service is not part of the program), and the
  handler for its outcome runs.
\<close>

definition onLogin :: "(login_request \<Rightarrow> login_result) \<Rightarrow> App \<Rightarrow> App" where
  "onLogin endpoint s =
     (let s1 = s\<lparr>errorMsg := None\<rparr>;
          s2 = s1\<lparr>isSubmitting := True\<rparr>
      in case endpoint (login (form_username (loginData s2)) (form_password (loginData s2))) of
           Success response \<Rightarrow> onLogin_next response s2
         | Failure err \<Rightarrow> onLogin_error err s2)"

definition logoutAndNavigate :: "App \<Rightarrow> App" where
  "logoutAndNavigate s = navigate Login (s\<lparr>authService := logout (authService s)\<rparr>)"

subsection \<open>Concrete states used in the examples\<close>

definition emptyStorage :: storage where
  "emptyStorage = Map.empty"

definition loggedOut :: App where
  "loggedOut = startup emptyStorage"

definition persistedStorage :: storage where
  "persistedStorage = emptyStorage(tokenKey \<mapsto> ''T'', roleKey \<mapsto> ''ADMIN'')"

definition loggedIn :: App where
  "loggedIn = startup persistedStorage"

definition tokenOnlyStorage :: storage where
  "tokenOnlyStorage = emptyStorage(tokenKey \<mapsto> ''T'')"

definition acceptAll :: "login_request \<Rightarrow> login_result" where
  "acceptAll req = Success \<lparr>response_token = ''T'', response_role = ''R''\<rparr>"

definition rejectAll :: "login_request \<Rightarrow> login_result" where
  "rejectAll req = Failure 401"

definition acceptEmptyToken :: "login_request \<Rightarrow> login_result" where
  "acceptEmptyToken req = Success \<lparr>response_token = [], response_role = ''R''\<rparr>"

subsection \<open>Sequences of session store calls\<close>

datatype session_call = SetSession string string | Logout

fun apply_call :: "session_call \<Rightarrow> AuthService \<Rightarrow> AuthService" where
  "apply_call (SetSession t r) a = setSession t r a"
| "apply_call Logout a = logout a"

fun run_calls :: "session_call list \<Rightarrow> AuthService \<Rightarrow> AuthService" where
  "run_calls [] a = a"
| "run_calls (c # cs) a = run_calls cs (apply_call c a)"

fun is_setSession :: "session_call \<Rightarrow> bool" where
  "is_setSession (SetSession t r) = True"
| "is_setSession Logout = False"

text \<open>A token or role is set when its signal holds a string rather than \<^verbatim>\<open>null\<close>.\<close>

definition is_set :: "string option \<Rightarrow> bool" where
  "is_set v = (v \<noteq> None)"

definition token_role_together :: "AuthService \<Rightarrow> bool" where
  "token_role_together a = (is_set (token a) = is_set (role a))"

section \<open>Facts shared by the proofs\<close>

lemmas store_defs =
  setSession_def logout_def isAuthenticated_def AuthService_init_def
  getItem_def setItem_def removeItem_def tokenKey_def roleKey_def

lemma isAuthenticated_setSession: "isAuthenticated (setSession t r a) = (t \<noteq> [])"
  by (simp add: setSession_def isAuthenticated_def)

lemma isAuthenticated_logout: "\<not> isAuthenticated (logout a)"
  by (simp add: logout_def isAuthenticated_def)

lemma run_calls_snoc: "run_calls (cs @ [c]) a = apply_call c (run_calls cs a)"
  by (induction cs arbitrary: a) simp_all

lemma navigate_refused:
  "\<not> isAuthenticated (authService s) \<Longrightarrow>
   navigate Dashboard s =
     s\<lparr>errorMsg := None, currentPage := Login,
       console := console s @ [ConsoleWarn ''Acceso denegado. Redirigiendo a login.'']\<rparr>"
  by (simp add: navigate_def)

lemma navigate_allowed:
  "isAuthenticated (authService s) \<Longrightarrow>
   navigate Dashboard s =
     s\<lparr>errorMsg := None, currentPage := Dashboard,
       console := console s @ [ConsoleLog ''Navegando a: dashboard'']\<rparr>"
  by (simp add: navigate_def)

lemma navigate_login:
  "navigate Login s =
     s\<lparr>errorMsg := None, currentPage := Login,
       console := console s @ [ConsoleLog ''Navegando a: login'']\<rparr>"
  by (simp add: navigate_def)

lemma onLogin_Failure:
  "endpoint (login (form_username (loginData s)) (form_password (loginData s))) = Failure e \<Longrightarrow>
   onLogin endpoint s = onLogin_error e (s\<lparr>errorMsg := None, isSubmitting := True\<rparr>)"
  by (simp add: onLogin_def)

lemma onLogin_Success:
  "endpoint (login (form_username (loginData s)) (form_password (loginData s))) = Success resp \<Longrightarrow>
   onLogin endpoint s = onLogin_next resp (s\<lparr>errorMsg := None, isSubmitting := True\<rparr>)"
  by (simp add: onLogin_def)

lemma onLogin_error_eq:
  "onLogin_error e s =
     s\<lparr>errorMsg := Some loginErrorMessage, isSubmitting := False,
       authService := logout (authService s)\<rparr>"
  by (simp add: onLogin_error_def)

lemma onLogin_next_authenticated:
  "response_token resp \<noteq> [] \<Longrightarrow>
   onLogin_next resp s =
     s\<lparr>authService := setSession (response_token resp) (response_role resp) (authService s),
       errorMsg := None, currentPage := Dashboard,
       console := console s @ [ConsoleLog ''Navegando a: dashboard''],
       isSubmitting := False\<rparr>"
  by (simp add: onLogin_next_def navigate_def isAuthenticated_setSession)

lemma onLogin_next_refused:
  "response_token resp = [] \<Longrightarrow>
   onLogin_next resp s =
     s\<lparr>authService := setSession [] (response_role resp) (authService s),
       errorMsg := None, currentPage := Login,
       console := console s @ [ConsoleWarn ''Acceso denegado. Redirigiendo a login.''],
       isSubmitting := False\<rparr>"
  by (simp add: onLogin_next_def navigate_def isAuthenticated_setSession)

lemma loginErrorMessage_nonempty: "loginErrorMessage \<noteq> []"
  by (simp add: loginErrorMessage_def)

lemma logoutAndNavigate_eq:
  "logoutAndNavigate s =
     s\<lparr>authService := logout (authService s), errorMsg := None, currentPage := Login,
       console := console s @ [ConsoleLog ''Navegando a: login'']\<rparr>"
  by (simp add: logoutAndNavigate_def navigate_login)

lemma loggedOut_not_authenticated: "\<not> isAuthenticated (authService loggedOut)"
  by (simp add: loggedOut_def startup_def ngOnInit_def App_init_def navigate_def
      emptyStorage_def store_defs)

lemma loggedOut_page: "currentPage loggedOut = Login"
  by (simp add: loggedOut_def startup_def ngOnInit_def App_init_def navigate_def
      emptyStorage_def store_defs)

lemma loggedIn_authenticated: "isAuthenticated (authService loggedIn)"
  by (simp add: loggedIn_def startup_def ngOnInit_def App_init_def navigate_def
      persistedStorage_def emptyStorage_def store_defs)

lemma loggedIn_page: "currentPage loggedIn = Dashboard"
  by (simp add: loggedIn_def startup_def ngOnInit_def App_init_def navigate_def
      persistedStorage_def emptyStorage_def store_defs)

section \<open>Navigation guard\<close>

text \<open>
  Claim C1. In every state whose session is not authenticated, \<open>navigate Dashboard\<close>
  ends on the login page, appends exactly one warning with a non-empty text to the
  console, and returns a state (the function has no failing branch); the session store
  (storage, token and role) is the one it started with.
\<close>

theorem navigate_dashboard_unauthenticated:
  assumes "\<not> isAuthenticated (authService s)"
  shows "currentPage (navigate Dashboard s) = Login
       \<and> (\<exists>m. console (navigate Dashboard s) = console s @ [ConsoleWarn m] \<and> m \<noteq> [])
       \<and> authService (navigate Dashboard s) = authService s"
  using assms by (simp add: navigate_refused)

theorem navigate_dashboard_unauthenticated_witness:
  "\<not> isAuthenticated (authService loggedOut)
   \<and> currentPage (navigate Dashboard loggedOut) = Login
   \<and> (\<exists>m. console (navigate Dashboard loggedOut) = console loggedOut @ [ConsoleWarn m] \<and> m \<noteq> [])
   \<and> authService (navigate Dashboard loggedOut) = authService loggedOut"
  using navigate_dashboard_unauthenticated [OF loggedOut_not_authenticated]
    loggedOut_not_authenticated by simp

section \<open>Session store\<close>

subsection \<open>Sequences of calls\<close>

text \<open>
  A sequence whose last call is \<open>setSession\<close> with the empty string as token ends
  unauthenticated: the token signal holds \<^verbatim>\<open>""\<close>, which \<^verbatim>\<open>!!\<close> maps to false.
\<close>

theorem setSession_empty_token_counterexample:
  "isAuthenticated (run_calls [SetSession [] ''ADMIN''] (AuthService_init emptyStorage))
     \<noteq> is_setSession (last [SetSession [] ''ADMIN''])"
  by (simp add: isAuthenticated_setSession)

text \<open>
  Claim C2, amended. After every non-empty sequence of \<open>setSession\<close> and \<open>logout\<close>
  calls, from any state of the store, \<open>isAuthenticated\<close> is true exactly when the last
  call was a \<open>setSession\<close> whose token is not the empty string.
\<close>

theorem isAuthenticated_after_calls:
  assumes "calls \<noteq> []"
  shows "isAuthenticated (run_calls calls a) =
           (case last calls of SetSession t r \<Rightarrow> t \<noteq> [] | Logout \<Rightarrow> False)"
proof -
  from assms obtain cs c where calls: "calls = cs @ [c]"
    by (cases calls rule: rev_cases) auto
  show ?thesis
  proof (cases c)
    case (SetSession t r)
    with calls show ?thesis
      by (simp add: run_calls_snoc isAuthenticated_setSession)
  next
    case Logout
    with calls show ?thesis
      by (simp add: run_calls_snoc isAuthenticated_logout)
  qed
qed

theorem isAuthenticated_after_calls_witness:
  "[Logout, SetSession ''T'' ''ADMIN''] \<noteq> []
   \<and> isAuthenticated (run_calls [Logout, SetSession ''T'' ''ADMIN''] (AuthService_init emptyStorage))
   \<and> [SetSession ''T'' ''ADMIN'', Logout] \<noteq> []
   \<and> \<not> isAuthenticated (run_calls [SetSession ''T'' ''ADMIN'', Logout] (AuthService_init emptyStorage))
   \<and> [Logout, SetSession [] ''ADMIN''] \<noteq> []
   \<and> \<not> isAuthenticated (run_calls [Logout, SetSession [] ''ADMIN''] (AuthService_init emptyStorage))"
  using isAuthenticated_after_calls [of "[Logout, SetSession ''T'' ''ADMIN'']" "AuthService_init emptyStorage"]
    isAuthenticated_after_calls [of "[SetSession ''T'' ''ADMIN'', Logout]" "AuthService_init emptyStorage"]
    isAuthenticated_after_calls [of "[Logout, SetSession [] ''ADMIN'']" "AuthService_init emptyStorage"]
  by simp

subsection \<open>setSession\<close>

text \<open>
  \<open>setSession\<close> checks nothing: called with two empty strings on a fresh store it
  writes both storage keys and both signals, so the store is no longer the one it was.
\<close>

theorem setSession_no_validation_counterexample:
  "getItem (localStorage (setSession [] [] (AuthService_init emptyStorage))) tokenKey = Some []
   \<and> getItem (localStorage (setSession [] [] (AuthService_init emptyStorage))) roleKey = Some []
   \<and> token (setSession [] [] (AuthService_init emptyStorage)) = Some []
   \<and> role (setSession [] [] (AuthService_init emptyStorage)) = Some []
   \<and> setSession [] [] (AuthService_init emptyStorage) \<noteq> AuthService_init emptyStorage"
proof -
  have "token (setSession [] [] (AuthService_init emptyStorage))
          \<noteq> token (AuthService_init emptyStorage)"
    by (simp add: store_defs emptyStorage_def)
  then have "setSession [] [] (AuthService_init emptyStorage) \<noteq> AuthService_init emptyStorage"
    by metis
  then show ?thesis
    by (simp add: store_defs)
qed

text \<open>
  Claim C3, amended. \<open>setSession token role\<close> performs no validation: every call,
  whatever its arguments, writes the token and the role to persistent storage (under
  their two keys, all other keys untouched) and to the in-memory signals. Afterwards
  \<open>isAuthenticated\<close> is true exactly when the token is not the empty string; so it is
  true after every call with both arguments non-empty.
\<close>

theorem setSession_writes:
  "getItem (localStorage (setSession t r a)) tokenKey = Some t
   \<and> getItem (localStorage (setSession t r a)) roleKey = Some r
   \<and> localStorage (setSession t r a) = (localStorage a)(tokenKey \<mapsto> t, roleKey \<mapsto> r)
   \<and> token (setSession t r a) = Some t
   \<and> role (setSession t r a) = Some r
   \<and> isAuthenticated (setSession t r a) = (t \<noteq> [])"
  by (simp add: store_defs)

theorem setSession_writes_witness:
  "getItem (localStorage (setSession ''T'' ''ADMIN'' (AuthService_init emptyStorage))) tokenKey
     = Some ''T''
   \<and> getItem (localStorage (setSession ''T'' ''ADMIN'' (AuthService_init emptyStorage))) roleKey
     = Some ''ADMIN''
   \<and> token (setSession ''T'' ''ADMIN'' (AuthService_init emptyStorage)) = Some ''T''
   \<and> role (setSession ''T'' ''ADMIN'' (AuthService_init emptyStorage)) = Some ''ADMIN''
   \<and> isAuthenticated (setSession ''T'' ''ADMIN'' (AuthService_init emptyStorage))"
  using setSession_writes [of "''T''" "''ADMIN''" "AuthService_init emptyStorage"]
  by (simp add: getItem_def tokenKey_def roleKey_def)

subsection \<open>Token and role together\<close>

text \<open>
  Restoring from a storage that holds the token key alone gives a store whose token is
  set and whose role is not.
\<close>

theorem restore_token_without_role_counterexample:
  "token (AuthService_init tokenOnlyStorage) = Some ''T''
   \<and> role (AuthService_init tokenOnlyStorage) = None
   \<and> \<not> token_role_together (AuthService_init tokenOnlyStorage)"
  by (simp add: store_defs tokenOnlyStorage_def emptyStorage_def token_role_together_def is_set_def)

text \<open>
  Claim C6, amended. With set meaning not \<^verbatim>\<open>null\<close>: the invariant that the token is
  set if and only if the role is set holds after every \<open>setSession\<close> and every
  \<open>logout\<close>, from any prior state. After the restore at startup it holds exactly when
  persistent storage holds both keys or neither; empty storage and the storage left by
  a \<open>setSession\<close> or a \<open>logout\<close> are such.
\<close>

theorem token_role_together_established:
  "token_role_together (setSession t r a)
   \<and> token_role_together (logout a)
   \<and> token_role_together (AuthService_init st)
        = (is_set (getItem st tokenKey) = is_set (getItem st roleKey))
   \<and> token_role_together (AuthService_init emptyStorage)
   \<and> token_role_together (AuthService_init (localStorage (setSession t r a)))
   \<and> token_role_together (AuthService_init (localStorage (logout a)))"
  by (simp add: store_defs token_role_together_def is_set_def emptyStorage_def)

theorem token_role_together_established_witness:
  "token_role_together (setSession ''T'' ''ADMIN'' (AuthService_init tokenOnlyStorage))
   \<and> token_role_together (logout (AuthService_init tokenOnlyStorage))
   \<and> token_role_together (AuthService_init persistedStorage)
   \<and> token_role_together (AuthService_init emptyStorage)"
  using token_role_together_established
      [of "''T''" "''ADMIN''" "AuthService_init tokenOnlyStorage" persistedStorage]
  by (simp add: getItem_def persistedStorage_def emptyStorage_def tokenKey_def roleKey_def
      is_set_def)

subsection \<open>isAuthenticated\<close>

text \<open>
  After \<open>setSession\<close> with the empty string the token signal is set (it holds
  \<^verbatim>\<open>""\<close>, not \<^verbatim>\<open>null\<close>) and \<open>isAuthenticated\<close> is false.
\<close>

theorem empty_token_set_not_authenticated_counterexample:
  "is_set (token (setSession [] ''ADMIN'' (AuthService_init emptyStorage)))
   \<and> \<not> isAuthenticated (setSession [] ''ADMIN'' (AuthService_init emptyStorage))"
  by (simp add: store_defs is_set_def)

text \<open>
  Claim C7, amended. \<open>isAuthenticated\<close> is true if and only if a token is currently
  set and is not the empty string. It returns a truth value only (no state), and that
  value is a function of the token alone: it is the truthiness of the token, whatever
  the storage and the role are.
\<close>

theorem isAuthenticated_token_nonempty:
  "isAuthenticated a = (\<exists>t. token a = Some t \<and> t \<noteq> [])
   \<and> isAuthenticated a = (is_set (token a) \<and> token a \<noteq> Some [])
   \<and> isAuthenticated (a\<lparr>localStorage := st, role := r\<rparr>) = isAuthenticated a
   \<and> isAuthenticated a = truthy (token a)"
  by (cases "token a") (simp_all add: isAuthenticated_def is_set_def)

theorem isAuthenticated_token_nonempty_witness:
  "isAuthenticated (AuthService_init persistedStorage)
   \<and> \<not> isAuthenticated (AuthService_init emptyStorage)
   \<and> \<not> isAuthenticated (setSession [] ''ADMIN'' (AuthService_init emptyStorage))"
  using isAuthenticated_token_nonempty [of "AuthService_init persistedStorage"]
    isAuthenticated_token_nonempty [of "AuthService_init emptyStorage"]
    isAuthenticated_token_nonempty [of "setSession [] ''ADMIN'' (AuthService_init emptyStorage)"]
  by (simp add: AuthService_init_def setSession_def getItem_def persistedStorage_def
      emptyStorage_def tokenKey_def roleKey_def)

section \<open>Startup\<close>

text \<open>
  Claim C8. \<open>startup\<close> restores the session from persistent storage and runs the init
  hook in the same step; the page it yields is the dashboard if the restored store
  reports authenticated and the login page otherwise. The restored store reports
  authenticated exactly when the persisted token is truthy, and the init hook leaves the
  restored store as it is. With nothing persisted the page is the login page.
\<close>

theorem startup_page:
  "currentPage (startup st) = (if isAuthenticated (AuthService_init st) then Dashboard else Login)
   \<and> isAuthenticated (AuthService_init st) = truthy (getItem st tokenKey)
   \<and> authService (startup st) = AuthService_init st
   \<and> currentPage (startup emptyStorage) = Login"
  by (simp add: startup_def ngOnInit_def App_init_def navigate_def isAuthenticated_def
      AuthService_init_def getItem_def emptyStorage_def)

theorem startup_page_witness:
  "currentPage (startup persistedStorage) = Dashboard
   \<and> currentPage (startup emptyStorage) = Login"
  using startup_page [of persistedStorage] startup_page [of emptyStorage]
  by (simp add: persistedStorage_def emptyStorage_def store_defs)

section \<open>Login submission\<close>

text \<open>
  The message the error handler stores is not the English text
  \<^verbatim>\<open>invalid username or password\<close>: after a rejected submission from the
  logged-out start state the error message differs from it.
\<close>

theorem login_failure_message_counterexample:
  "rejectAll (login (form_username (loginData loggedOut)) (form_password (loginData loggedOut)))
     = Failure 401
   \<and> errorMsg (onLogin rejectAll loggedOut) \<noteq> Some ''invalid username or password''"
  by (simp add: onLogin_def rejectAll_def onLogin_error_eq loginErrorMessage_def)

text \<open>
  Claim C4, amended. When the request fails with any error \<open>e\<close>, the error handler,
  run in any state, sets the error message to the fixed Spanish text
  \<^verbatim>\<open>Usuario o contrase\<close>(n with tilde)\<^verbatim>\<open>a incorrectos. Por favor, int\<close>(e with
  acute)\<^verbatim>\<open>ntalo de nuevo.\<close>, the same for every \<open>e\<close>; it clears \<open>isSubmitting\<close>,
  replaces the session store by its \<open>logout\<close> (token, role and both storage keys gone,
  not authenticated whatever it was before) and leaves \<open>currentPage\<close> as it was. The
  same holds of a whole submission from any state whose endpoint answers with a failure.
\<close>

theorem login_failure:
  "(let s' = onLogin_error e s in
      errorMsg s' = Some (''Usuario o contrase'' @ [CHR 0xF1] @ ''a incorrectos. Por favor, int''
                            @ [CHR 0xE9] @ ''ntalo de nuevo.'')
      \<and> errorMsg s' = Some loginErrorMessage \<and> loginErrorMessage \<noteq> []
      \<and> \<not> isSubmitting s'
      \<and> authService s' = logout (authService s)
      \<and> \<not> isAuthenticated (authService s')
      \<and> token (authService s') = None \<and> role (authService s') = None
      \<and> getItem (localStorage (authService s')) tokenKey = None
      \<and> getItem (localStorage (authService s')) roleKey = None
      \<and> currentPage s' = currentPage s)
   \<and> (endpoint (login (form_username (loginData s)) (form_password (loginData s))) = Failure e \<longrightarrow>
       (let s' = onLogin endpoint s in
          errorMsg s' = Some (''Usuario o contrase'' @ [CHR 0xF1] @ ''a incorrectos. Por favor, int''
                                @ [CHR 0xE9] @ ''ntalo de nuevo.'')
          \<and> errorMsg s' = Some loginErrorMessage
          \<and> \<not> isSubmitting s'
          \<and> authService s' = logout (authService s)
          \<and> \<not> isAuthenticated (authService s')
          \<and> token (authService s') = None \<and> role (authService s') = None
          \<and> getItem (localStorage (authService s')) tokenKey = None
          \<and> getItem (localStorage (authService s')) roleKey = None
          \<and> currentPage s' = currentPage s))"
proof -
  have msg: "loginErrorMessage =
      ''Usuario o contrase'' @ [CHR 0xF1] @ ''a incorrectos. Por favor, int''
        @ [CHR 0xE9] @ ''ntalo de nuevo.''"
    by (simp add: loginErrorMessage_def)
  have handler: "onLogin_error e s' =
      s'\<lparr>errorMsg := Some loginErrorMessage, isSubmitting := False,
         authService := logout (authService s')\<rparr>" for s'
    by (rule onLogin_error_eq)
  have store: "token (logout a) = None \<and> role (logout a) = None
      \<and> getItem (localStorage (logout a)) tokenKey = None
      \<and> getItem (localStorage (logout a)) roleKey = None" for a
    by (simp add: logout_def getItem_def removeItem_def)
  show ?thesis
    using store [of "authService s"] msg
    by (simp add: onLogin_Failure handler loginErrorMessage_nonempty isAuthenticated_logout
        del: append.simps append_Cons append_Nil)
qed

theorem login_failure_witness:
  "rejectAll (login (form_username (loginData loggedIn)) (form_password (loginData loggedIn)))
     = Failure 401
   \<and> isAuthenticated (authService loggedIn)
   \<and> currentPage loggedIn = Dashboard
   \<and> errorMsg (onLogin rejectAll loggedIn)
       = Some (''Usuario o contrase'' @ [CHR 0xF1] @ ''a incorrectos. Por favor, int''
                 @ [CHR 0xE9] @ ''ntalo de nuevo.'')
   \<and> \<not> isSubmitting (onLogin rejectAll loggedIn)
   \<and> \<not> isAuthenticated (authService (onLogin rejectAll loggedIn))
   \<and> currentPage (onLogin rejectAll loggedIn) = currentPage loggedIn
   \<and> rejectAll (login (form_username (loginData loggedOut)) (form_password (loginData loggedOut)))
     = Failure 401
   \<and> currentPage (onLogin rejectAll loggedOut) = Login"
  using login_failure [of 401 loggedIn rejectAll] login_failure [of 401 loggedOut rejectAll]
    loggedIn_authenticated loggedIn_page loggedOut_page
  by (simp add: rejectAll_def Let_def isAuthenticated_logout)

text \<open>
  Claim C5. When the request succeeds with a response whose token is not the empty
  string, the success handler, run in any state, leaves the session authenticated with
  the token and the role of the response, the page on the dashboard, the error message
  unset and \<open>isSubmitting\<close> false; the same holds of a whole submission from any state
  whose endpoint answers with that response. The role may be any string, in particular a
  non-empty one.
\<close>

theorem login_success:
  assumes "response_token resp \<noteq> []"
  shows "(let s' = onLogin_next resp s in
            isAuthenticated (authService s')
            \<and> token (authService s') = Some (response_token resp)
            \<and> role (authService s') = Some (response_role resp)
            \<and> currentPage s' = Dashboard
            \<and> errorMsg s' = None
            \<and> \<not> isSubmitting s')
       \<and> (endpoint (login (form_username (loginData s)) (form_password (loginData s))) = Success resp \<longrightarrow>
           (let s' = onLogin endpoint s in
              isAuthenticated (authService s')
              \<and> token (authService s') = Some (response_token resp)
              \<and> role (authService s') = Some (response_role resp)
              \<and> currentPage s' = Dashboard
              \<and> errorMsg s' = None
              \<and> \<not> isSubmitting s'))"
  using assms
  by (simp add: onLogin_Success onLogin_next_authenticated isAuthenticated_setSession)
    (simp add: setSession_def)

theorem login_success_witness:
  "response_token \<lparr>response_token = ''T'', response_role = ''R''\<rparr> \<noteq> []
   \<and> acceptAll (login (form_username (loginData loggedOut)) (form_password (loginData loggedOut)))
       = Success \<lparr>response_token = ''T'', response_role = ''R''\<rparr>
   \<and> isAuthenticated (authService (onLogin acceptAll loggedOut))
   \<and> role (authService (onLogin acceptAll loggedOut)) = Some ''R''
   \<and> currentPage (onLogin acceptAll loggedOut) = Dashboard
   \<and> errorMsg (onLogin acceptAll loggedOut) = None
   \<and> \<not> isSubmitting (onLogin acceptAll loggedOut)"
  using login_success [of "\<lparr>response_token = ''T'', response_role = ''R''\<rparr>" loggedOut acceptAll]
  by (simp add: acceptAll_def Let_def)

text \<open>
  Claim C10. When the request succeeds with a response whose token is the empty string,
  the success handler, run in any state, still writes both fields to storage and to the
  signals through \<open>setSession\<close>; the store is then not authenticated, the following
  \<open>navigate Dashboard\<close> is refused (one warning on the console), and the handler ends on
  the login page with no error message and \<open>isSubmitting\<close> false. The same holds of a
  whole submission from any state whose endpoint answers with that response.
\<close>

theorem login_success_empty_token:
  assumes "response_token resp = []"
  shows "(let s' = onLogin_next resp s in
            getItem (localStorage (authService s')) tokenKey = Some []
            \<and> getItem (localStorage (authService s')) roleKey = Some (response_role resp)
            \<and> token (authService s') = Some []
            \<and> role (authService s') = Some (response_role resp)
            \<and> \<not> isAuthenticated (authService s')
            \<and> currentPage s' = Login
            \<and> console s' = console s @ [ConsoleWarn ''Acceso denegado. Redirigiendo a login.'']
            \<and> errorMsg s' = None
            \<and> \<not> isSubmitting s')
       \<and> (endpoint (login (form_username (loginData s)) (form_password (loginData s))) = Success resp \<longrightarrow>
           (let s' = onLogin endpoint s in
              getItem (localStorage (authService s')) tokenKey = Some []
              \<and> getItem (localStorage (authService s')) roleKey = Some (response_role resp)
              \<and> token (authService s') = Some []
              \<and> role (authService s') = Some (response_role resp)
              \<and> \<not> isAuthenticated (authService s')
              \<and> currentPage s' = Login
              \<and> console s' = console s @ [ConsoleWarn ''Acceso denegado. Redirigiendo a login.'']
              \<and> errorMsg s' = None
              \<and> \<not> isSubmitting s'))"
  using assms
  by (simp add: onLogin_Success onLogin_next_refused isAuthenticated_setSession)
    (simp add: store_defs)

theorem login_success_empty_token_witness:
  "response_token \<lparr>response_token = [], response_role = ''R''\<rparr> = []
   \<and> acceptEmptyToken (login (form_username (loginData loggedIn)) (form_password (loginData loggedIn)))
       = Success \<lparr>response_token = [], response_role = ''R''\<rparr>
   \<and> isAuthenticated (authService loggedIn)
   \<and> getItem (localStorage (authService (onLogin acceptEmptyToken loggedIn))) tokenKey = Some []
   \<and> getItem (localStorage (authService (onLogin acceptEmptyToken loggedIn))) roleKey = Some ''R''
   \<and> \<not> isAuthenticated (authService (onLogin acceptEmptyToken loggedIn))
   \<and> currentPage (onLogin acceptEmptyToken loggedIn) = Login
   \<and> errorMsg (onLogin acceptEmptyToken loggedIn) = None
   \<and> \<not> isSubmitting (onLogin acceptEmptyToken loggedIn)"
  using login_success_empty_token
      [of "\<lparr>response_token = [], response_role = ''R''\<rparr>" loggedIn acceptEmptyToken]
    loggedIn_authenticated
  by (simp add: acceptEmptyToken_def Let_def)

section \<open>Session store calls and the navigation state\<close>

text \<open>
  Claim C9. A \<open>logout\<close> of the session store while the page is the dashboard leaves
  the page on the dashboard although the store is no longer authenticated; so does the
  error handler of a submission, the one place of the component that calls \<open>logout\<close>
  without navigating; so does \<open>setSession\<close>. The store's operations change the store
  only. The page changes at the next explicit \<open>navigate Dashboard\<close>, which the guard
  then refuses.
\<close>

theorem logout_keeps_page:
  assumes "currentPage s = Dashboard"
  shows "currentPage (s\<lparr>authService := logout (authService s)\<rparr>) = Dashboard
       \<and> \<not> isAuthenticated (authService (s\<lparr>authService := logout (authService s)\<rparr>))
       \<and> currentPage (onLogin_error e s) = Dashboard
       \<and> \<not> isAuthenticated (authService (onLogin_error e s))
       \<and> currentPage (s\<lparr>authService := setSession t r (authService s)\<rparr>) = Dashboard
       \<and> currentPage (navigate Dashboard (s\<lparr>authService := logout (authService s)\<rparr>)) = Login"
  using assms
  by (simp add: onLogin_error_eq isAuthenticated_logout navigate_refused)

theorem logout_keeps_page_witness:
  "currentPage loggedIn = Dashboard
   \<and> currentPage (loggedIn\<lparr>authService := logout (authService loggedIn)\<rparr>) = Dashboard
   \<and> \<not> isAuthenticated (authService (loggedIn\<lparr>authService := logout (authService loggedIn)\<rparr>))
   \<and> currentPage (navigate Dashboard (loggedIn\<lparr>authService := logout (authService loggedIn)\<rparr>))
       = Login"
  using logout_keeps_page [OF loggedIn_page] loggedIn_page by simp

end
